theory Spec2Isabelle
  imports
    Complex_Main
    "HOL-Library.Char_ord"
    "HOL-Library.List_Lexorder"
    "HOL-Library.Product_Lexorder"
    "HOL-Library.AList"
begin

section \<open>Python values used by the notebook\<close>

text \<open>
  A Python \<open>str\<close> is a \<open>string\<close>: the list of the bytes of its UTF-8 encoding. The order of
  \<open>HOL-Library.List_Lexorder\<close> over \<open>HOL-Library.Char_ord\<close> is then Python's \<open><\<close> on
  \<open>str\<close> (UTF-8 keeps the order of code points, and a proper prefix is smaller).
  A finite Python \<open>float\<close> is a \<open>real\<close>; rounding, infinities and NaN are not modelled. A tuple
  \<open>(score, term)\<close> is a pair, compared first by score and then by term
  (\<open>HOL-Library.Product_Lexorder\<close>), as Python compares tuples.
\<close>

type_synonym vector = "real list"

text \<open>
  \<open>str.lower()\<close>: the letters \<open>A\<close> to \<open>Z\<close> go to \<open>a\<close> to \<open>z\<close>. Every other byte is kept.
  (Python also lowers letters beyond ASCII, but no string with such a letter lowers to
  \<open>dot\<close> or to \<open>cosine\<close>, so the two comparisons of \<open>try_model\<close> come out the same.)
\<close>

definition lower_char :: "char \<Rightarrow> char" where
  "lower_char c =
     (if CHR ''A'' \<le> c \<and> c \<le> CHR ''Z'' then char_of (of_char c + (32::nat)) else c)"

definition lower :: "string \<Rightarrow> string" where
  "lower s = map lower_char s"

text \<open>\<open>sep.join(xs)\<close>.\<close>

fun join :: "string \<Rightarrow> string list \<Rightarrow> string" where
  "join sep [] = []"
| "join sep [x] = x"
| "join sep (x # y # ys) = x @ sep @ join sep (y # ys)"

text \<open>
  The dict comprehension \<open>{q: f(q) for q in qs}\<close>. A dict keeps its keys in the order of
  their first insertion, and a later insertion of a key that is present replaces the value in
  place: \<open>AList.update\<close>. The association list is what \<open>.items()\<close> iterates over.
\<close>

definition dict_comprehension :: "('k \<Rightarrow> 'v) \<Rightarrow> 'k list \<Rightarrow> ('k \<times> 'v) list" where
  "dict_comprehension f qs = foldl (\<lambda>d q. AList.update q (f q) d) [] qs"

text \<open>
  \<open>sorted(xs, reverse=True)\<close>: the list is reversed, sorted by a stable sort and reversed
  again, so that elements that compare equal keep their original order.
\<close>

definition sorted_reverse :: "('a::linorder) list \<Rightarrow> 'a list" where
  "sorted_reverse xs = rev (sort (rev xs))"

section \<open>The libraries the notebook calls\<close>

text \<open>
  The embedding model, the noun-phrase extractor and the two scorers are not part of the
  notebook; they are parameters. \<open>encode lib mod_name\<close> is
  \<open>SentenceTransformer(mod_name).encode\<close>, \<open>noun_phrases lib\<close> is
  \<open>TextBlob(_).noun_phrases\<close>. The passage is encoded as a batch of one,
  \<open>model.encode([psg_in])\<close>, and \<open>passage_embedding_1\<close> stands for its only row; a scorer
  applied to a term vector and the passage vector is
  \<open>float(util.dot_score(v, passage_embedding_1))\<close>, the single entry of the 1-by-1 score
  matrix. They are functions: they return, and they return the same value for the same
  arguments.
\<close>

record library =
  encode :: "string \<Rightarrow> string \<Rightarrow> vector"
  noun_phrases :: "string \<Rightarrow> string list"
  dot_score :: "vector \<Rightarrow> vector \<Rightarrow> real"
  pytorch_cos_sim :: "vector \<Rightarrow> vector \<Rightarrow> real"

section \<open>try\_model\<close>

datatype error = ValueError string

definition queries :: "string list" where
  "queries = [''gym'', ''holiday'', ''bench'', ''bra'', ''television'', ''exercise'',
     ''exercise equipment'', ''weights bench'', ''rower'', ''weights'', ''tent'',
     ''outdoors'', ''camping'']"

text \<open>The \<open>if\<close>/\<open>elif\<close>/\<open>else\<close> chain that binds \<open>match_func\<close> or raises.\<close>

definition select_match_func ::
  "library \<Rightarrow> string \<Rightarrow> error + (vector \<Rightarrow> vector \<Rightarrow> real)" where
  "select_match_func lib match_algo =
     (if lower match_algo = ''dot'' then Inr (dot_score lib)
      else if lower match_algo = ''cosine'' then Inr (pytorch_cos_sim lib)
      else Inl (ValueError ''Invalid Match Function!''))"

definition try_model ::
  "library \<Rightarrow> string \<Rightarrow> string \<Rightarrow> bool \<Rightarrow> string \<Rightarrow> string list
     \<Rightarrow> error + (real \<times> string) list" where
  "try_model lib mod_name match_algo just_nouns psg_in search_terms =
     (let psg_in = (if just_nouns then join '' '' (noun_phrases lib psg_in) else psg_in);
          model = encode lib mod_name;
          passage_embedding_1 = model psg_in;
          search_terms = dict_comprehension model search_terms
      in case select_match_func lib match_algo of
           Inl e \<Rightarrow> Inl e
         | Inr match_func \<Rightarrow>
             Inr (sorted_reverse
                    (map (\<lambda>(k, v). (match_func v passage_embedding_1, k)) search_terms)))"

section \<open>The index and do\_query\<close>

text \<open>
  The body of a stored document, \<open>{"vector": ..., "description": ...}\<close>, one entry of
  \<open>res["hits"]["hits"]\<close> with its \<open>_id\<close>, \<open>_score\<close> and \<open>_source\<close>, and the request
  \<open>qry\<close>: \<open>"size"\<close>, and the \<open>"vector"\<close> and \<open>"k"\<close> of the knn clause.
\<close>

record document =
  vector :: vector
  description :: string

record hit =
  hit_id :: nat
  hit_score :: real
  hit_source :: document

record knn_query =
  qry_size :: nat
  qry_vector :: vector
  qry_k :: nat

text \<open>
  The index body \<open>idx\<close>: \<open>index.knn\<close>, the type and the dimension of the \<open>vector\<close> field and
  the type of the \<open>description\<close> field. The dimension is the length of the vector that the
  model \<open>m\<close> gives for the gym-bench passage. The body names no metric: the line that would
  set \<open>space_type\<close> is a comment.
\<close>

record index_body =
  index_knn :: bool
  vector_type :: string
  dimension :: nat
  description_type :: string

definition idx :: "(string \<Rightarrow> vector) \<Rightarrow> string \<Rightarrow> index_body" where
  "idx m psg_gym_bench =
     \<lparr>index_knn = True, vector_type = ''knn_vector'',
      dimension = length (m psg_gym_bench), description_type = ''text''\<rparr>"

definition my_idx :: string where
  "my_idx = ''rob_semantic_test''"

text \<open>
  The search engine behind the client \<open>es\<close> holds the indices by name, each with its body
  and its documents by id. The engine is not part of the notebook: \<open>search es\<close> is the call
  \<open>es.search(qry, index=...)\<close>, a parameter that maps the state of the engine, the request
  and the index name to the hits or to the engine's error, and to the state after the call.
\<close>

record knn_index =
  body :: index_body
  documents :: "(nat \<times> document) list"

type_synonym cluster = "(string \<times> knn_index) list"

record 'e opensearch =
  search :: "cluster \<Rightarrow> knn_query \<Rightarrow> string \<Rightarrow> ('e + hit list) \<times> cluster"

text \<open>
  \<open>do_query\<close> reads the globals \<open>m\<close>, \<open>es\<close> and \<open>my_idx\<close> and assigns none of them; an error
  of the engine call leaves the function as it came.
\<close>

definition do_query ::
  "'e opensearch \<Rightarrow> (string \<Rightarrow> vector) \<Rightarrow> string \<Rightarrow> cluster \<Rightarrow> string
     \<Rightarrow> ('e + (string \<times> real) list) \<times> cluster" where
  "do_query es m index c term =
     (let qry = \<lparr>qry_size = 2, qry_vector = m term, qry_k = 2\<rparr>;
          (res, c') = search es c qry index
      in (case res of
            Inl e \<Rightarrow> Inl e
          | Inr hits \<Rightarrow> Inr (map (\<lambda>h. (description (hit_source h), hit_score h)) hits),
          c'))"

section \<open>Instances of the parameters\<close>

text \<open>
  The scorers of \<open>sentence_transformers.util\<close> on real vectors of one length, as the library
  documents them: \<open>dot_score\<close> is the sum of the products of the entries, and
  \<open>pytorch_cos_sim\<close> divides each argument by its Euclidean norm, or by \<open>1e-12\<close> when the
  norm is smaller, and takes the dot product of the two. Neither raises on a zero vector.
  The general results below hold for every scorer; these two are used where a vector of norm
  zero is scored.
\<close>

definition torch_dot_score :: "vector \<Rightarrow> vector \<Rightarrow> real" where
  "torch_dot_score a b = sum_list (map2 (*) a b)"

definition torch_norm :: "vector \<Rightarrow> real" where
  "torch_norm a = sqrt (torch_dot_score a a)"

definition torch_normalize :: "vector \<Rightarrow> vector" where
  "torch_normalize a = map (\<lambda>x. x / max (torch_norm a) (1 / 10 ^ 12)) a"

definition torch_cos_sim :: "vector \<Rightarrow> vector \<Rightarrow> real" where
  "torch_cos_sim a b = torch_dot_score (torch_normalize a) (torch_normalize b)"

text \<open>
  A small uncased model with two dimensions: \<open>gym\<close> in any case lies on the first axis,
  \<open>tent\<close> on the second, and every other text is the zero vector.
\<close>

definition toy_encode :: "string \<Rightarrow> string \<Rightarrow> vector" where
  "toy_encode mod_name text =
     (if lower text = ''gym'' then [1, 0] else if lower text = ''tent'' then [0, 1] else [0, 0])"

definition toy_library :: library where
  "toy_library =
     \<lparr>encode = toy_encode, noun_phrases = (\<lambda>psg. [psg]),
      dot_score = torch_dot_score, pytorch_cos_sim = torch_cos_sim\<rparr>"

text \<open>
  An exact-scan engine: it scores every document of the index against the query vector by
  the dot product, ranks them and returns the best \<open>size\<close>; it fails only when the index
  does not exist, it does not compare dimensions, and it leaves the indices as they are.
\<close>

definition toy_search :: "cluster \<Rightarrow> knn_query \<Rightarrow> string \<Rightarrow> (string + hit list) \<times> cluster" where
  "toy_search c qry index =
     (case map_of c index of
        None \<Rightarrow> (Inl ''index_not_found_exception'', c)
      | Some ix \<Rightarrow>
          (Inr (take (qry_size qry)
                  (rev (sort_key hit_score
                     (map (\<lambda>(i, d). \<lparr>hit_id = i,
                                       hit_score = torch_dot_score (qry_vector qry) (vector d),
                                       hit_source = d\<rparr>)
                        (documents ix))))), c))"

definition toy_engine :: "string opensearch" where
  "toy_engine = \<lparr>search = toy_search\<rparr>"




text \<open>The index with its body and no document yet.\<close>

definition fresh_cluster :: "(string \<Rightarrow> vector) \<Rightarrow> string \<Rightarrow> cluster" where
  "fresh_cluster m psg_gym_bench = [(my_idx, \<lparr>body = idx m psg_gym_bench, documents = []\<rparr>)]"

section \<open>Strings, dicts and sorting\<close>

lemma lower_char_idem: "lower_char (lower_char c) = lower_char c"
proof (cases "CHR ''A'' \<le> c \<and> c \<le> CHR ''Z''")
  case True
  then have n: "65 \<le> (of_char c :: nat)" "(of_char c :: nat) \<le> 90"
    by (simp_all add: less_eq_char_def)
  have "(of_char (char_of (of_char c + (32::nat))) :: nat) = (of_char c + 32) mod 256"
    by simp
  also have "\<dots> = of_char c + 32" using n by simp
  finally have "\<not> char_of (of_char c + (32::nat)) \<le> CHR ''Z''"
    using n by (simp add: less_eq_char_def)
  then have "lower_char (char_of (of_char c + (32::nat))) = char_of (of_char c + (32::nat))"
    unfolding lower_char_def by simp
  moreover have "lower_char c = char_of (of_char c + (32::nat))"
    unfolding lower_char_def using True by simp
  ultimately show ?thesis by simp
next
  case False
  then have "lower_char c = c" unfolding lower_char_def by (rule if_not_P)
  then show ?thesis by simp
qed

lemma lower_idem: "lower (lower s) = lower s"
  by (simp add: lower_def lower_char_idem)

lemma lower_literals:
  "lower ''dot'' = ''dot''" "lower ''cosine'' = ''cosine''"
  "lower ''DOT'' = ''dot''" "lower ''Dot'' = ''dot''"
  "lower ''Gym'' = ''gym''" "lower ''gym'' = ''gym''"
  "lower ''tent'' = ''tent''" "lower ''bench'' = ''bench''"
  "lower ''euclidean'' = ''euclidean''"
  by code_simp+

text \<open>A dict built from a list holds each distinct key once, with the value of that key.\<close>

lemma update_keyed:
  "AList.update q (f q) (map (\<lambda>k. (k, f k)) ks) =
     map (\<lambda>k. (k, f k)) (if q \<in> set ks then ks else ks @ [q])"
  by (induction ks) auto

lemma foldl_update_keyed:
  "distinct ks0 \<Longrightarrow>
   \<exists>ks. distinct ks \<and> set ks = set ks0 \<union> set qs \<and>
     foldl (\<lambda>d q. AList.update q (f q) d) (map (\<lambda>k. (k, f k)) ks0) qs = map (\<lambda>k. (k, f k)) ks"
proof (induction qs arbitrary: ks0)
  case Nil
  then show ?case by auto
next
  case (Cons q qs)
  let ?ks1 = "if q \<in> set ks0 then ks0 else ks0 @ [q]"
  have d1: "distinct ?ks1" using Cons.prems by auto
  from Cons.IH [OF d1] obtain ks where
    ks: "distinct ks" "set ks = set ?ks1 \<union> set qs"
      "foldl (\<lambda>d q. AList.update q (f q) d) (map (\<lambda>k. (k, f k)) ?ks1) qs = map (\<lambda>k. (k, f k)) ks"
    by blast
  have "set ks = set ks0 \<union> set (q # qs)" using ks(2) by auto
  moreover have "foldl (\<lambda>d q. AList.update q (f q) d) (map (\<lambda>k. (k, f k)) ks0) (q # qs)
      = map (\<lambda>k. (k, f k)) ks"
    using ks(3) by (simp only: foldl_Cons update_keyed)
  ultimately show ?case using ks(1) by blast
qed

lemma dict_comprehension_keyed:
  "\<exists>ks. distinct ks \<and> set ks = set qs \<and> dict_comprehension f qs = map (\<lambda>k. (k, f k)) ks"
  using foldl_update_keyed [of "[]" qs f] by (simp add: dict_comprehension_def)

lemma dict_comprehension_Nil: "dict_comprehension f [] = []"
  by (simp add: dict_comprehension_def)

lemma set_sorted_reverse: "set (sorted_reverse xs) = set xs"
  by (simp add: sorted_reverse_def)

lemma length_sorted_reverse: "length (sorted_reverse xs) = length xs"
  by (simp add: sorted_reverse_def)

lemma distinct_sorted_reverse: "distinct (sorted_reverse xs) = distinct xs"
  by (simp add: sorted_reverse_def)

lemma sorted_reverse_Nil: "sorted_reverse [] = []"
  by (simp add: sorted_reverse_def)

lemma strictly_descending_sorted_reverse:
  assumes "distinct xs"
  shows "sorted_wrt (\<lambda>a b. b < a) (sorted_reverse xs)"
proof -
  have "sorted (rev (sorted_reverse xs))" "distinct (rev (sorted_reverse xs))"
    using assms by (simp_all add: sorted_reverse_def)
  then have "sorted_wrt (<) (rev (sorted_reverse xs))"
    by (simp add: strict_sorted_iff)
  then show ?thesis by (simp add: sorted_wrt_rev)
qed

lemma sorted_reverse_cong_set:
  assumes "distinct xs" "distinct ys" "set xs = set ys"
  shows "sorted_reverse xs = sorted_reverse ys"
proof -
  have "sort (rev xs) = sort (rev ys)"
    by (rule sorted_distinct_set_unique) (use assms in simp_all)
  then show ?thesis by (simp add: sorted_reverse_def)
qed

section \<open>The shape of a result of try\_model\<close>

lemma select_match_func_dot:
  "lower a = ''dot'' \<Longrightarrow> select_match_func lib a = Inr (dot_score lib)"
  by (simp add: select_match_func_def)

lemma select_match_func_cosine:
  "lower a = ''cosine'' \<Longrightarrow> select_match_func lib a = Inr (pytorch_cos_sim lib)"
  by (simp add: select_match_func_def)

lemma select_match_func_invalid:
  "lower a \<noteq> ''dot'' \<Longrightarrow> lower a \<noteq> ''cosine'' \<Longrightarrow>
   select_match_func lib a = Inl (ValueError ''Invalid Match Function!'')"
  by (simp add: select_match_func_def)

lemma select_match_func_valid:
  "lower a = ''dot'' \<or> lower a = ''cosine'' \<Longrightarrow> \<exists>f. select_match_func lib a = Inr f"
  by (auto simp: select_match_func_def)

lemma select_match_func_lower: "select_match_func lib (lower a) = select_match_func lib a"
  by (simp add: select_match_func_def lower_idem)

lemma try_model_select:
  "try_model lib mn a jn psg ts =
     (case select_match_func lib a of
        Inl e \<Rightarrow> Inl e
      | Inr f \<Rightarrow>
          Inr (sorted_reverse
                 (map (\<lambda>(k, v). (f v (encode lib mn
                                        (if jn then join '' '' (noun_phrases lib psg) else psg)), k))
                    (dict_comprehension (encode lib mn) ts))))"
  by (simp add: try_model_def Let_def)

text \<open>
  With a scorer selected, the result is the descending sort of one pair per distinct term.
\<close>

lemma try_model_keyed:
  assumes "select_match_func lib a = Inr f"
  shows "\<exists>ks. distinct ks \<and> set ks = set ts \<and>
     try_model lib mn a jn psg ts =
       Inr (sorted_reverse
              (map (\<lambda>k. (f (encode lib mn k)
                            (encode lib mn (if jn then join '' '' (noun_phrases lib psg) else psg)), k))
                 ks))"
proof -
  obtain ks where ks: "distinct ks" "set ks = set ts"
      "dict_comprehension (encode lib mn) ts = map (\<lambda>k. (k, encode lib mn k)) ks"
    using dict_comprehension_keyed [of ts "encode lib mn"] by (elim exE conjE)
  have "try_model lib mn a jn psg ts =
       Inr (sorted_reverse
              (map (\<lambda>k. (f (encode lib mn k)
                            (encode lib mn (if jn then join '' '' (noun_phrases lib psg) else psg)), k))
                 ks))"
    unfolding try_model_select assms ks(3) sum.case map_map comp_def prod.case ..
  then show ?thesis using ks(1,2) by blast
qed

lemma distinct_scored: "distinct ks \<Longrightarrow> distinct (map (\<lambda>k. (g k, k)) ks)"
  by (simp add: distinct_map inj_on_def)

lemma try_model_Inr_select:
  "try_model lib mn a jn psg ts = Inr res \<Longrightarrow> \<exists>f. select_match_func lib a = Inr f"
  by (cases "select_match_func lib a") (simp_all add: try_model_select)

section \<open>The metric name\<close>

text \<open>
  C8. A metric name whose lowercased form is neither \<open>dot\<close> nor \<open>cosine\<close> makes
  \<open>try_model\<close> raise \<open>ValueError("Invalid Match Function!")\<close>, whatever the other
  arguments are; no result list is produced.
\<close>

theorem invalid_match_function:
  assumes "lower match_algo \<noteq> ''dot''" and "lower match_algo \<noteq> ''cosine''"
  shows "try_model lib mod_name match_algo just_nouns psg_in search_terms =
           Inl (ValueError ''Invalid Match Function!'')"
  by (simp add: try_model_select select_match_func_invalid [OF assms])

theorem invalid_match_function_witness:
  "lower ''euclidean'' \<noteq> ''dot'' \<and> lower ''euclidean'' \<noteq> ''cosine'' \<and>
   try_model toy_library ''m'' ''euclidean'' False ''gym'' queries =
     Inl (ValueError ''Invalid Match Function!'')"
proof -
  have h: "lower ''euclidean'' \<noteq> ''dot''" "lower ''euclidean'' \<noteq> ''cosine''"
    by (simp_all add: lower_literals)
  show ?thesis
    using h invalid_match_function [OF h, of toy_library "''m''" False "''gym''" queries]
    by simp
qed

text \<open>
  C10. The metric name is read through \<open>lower()\<close> only: a call with the name \<open>s\<close> and the
  call with the lowercase form of \<open>s\<close> give the same result or the same error, all other
  arguments being equal. \<open>DOT\<close>, \<open>Dot\<close> and \<open>dot\<close> all select the dot-product scorer.
\<close>

theorem match_algo_case_insensitive:
  "try_model lib mod_name s just_nouns psg_in search_terms =
     try_model lib mod_name (lower s) just_nouns psg_in search_terms
   \<and> select_match_func lib ''DOT'' = Inr (dot_score lib)
   \<and> select_match_func lib ''Dot'' = Inr (dot_score lib)
   \<and> select_match_func lib ''dot'' = Inr (dot_score lib)"
  by (simp add: try_model_select select_match_func_lower select_match_func_dot lower_literals)

section \<open>The result list of try\_model\<close>

lemma toy_encode_literals:
  "toy_encode mn ''gym'' = [1, 0]" "toy_encode mn ''Gym'' = [1, 0]"
  "toy_encode mn ''tent'' = [0, 1]" "toy_encode mn ''bench'' = [0, 0]"
  by (simp_all add: toy_encode_def lower_literals)

lemma toy_library_fields:
  "encode toy_library = toy_encode" "noun_phrases toy_library = (\<lambda>psg. [psg])"
  "dot_score toy_library = torch_dot_score" "pytorch_cos_sim toy_library = torch_cos_sim"
  by (simp_all add: toy_library_def)

lemma toy_dot_gym_tent:
  "try_model toy_library ''m'' ''dot'' False ''gym'' [''gym'', ''tent''] =
     Inr [(1, ''gym''), (0, ''tent'')]"
  by (simp add: try_model_select select_match_func_dot lower_literals toy_library_fields
      toy_encode_literals dict_comprehension_def sorted_reverse_def torch_dot_score_def)

lemma toy_dot_ties:
  "try_model toy_library ''m'' ''dot'' False ''gym'' [''Gym'', ''gym''] =
     Inr [(1, ''gym''), (1, ''Gym'')]"
  by (simp add: try_model_select select_match_func_dot lower_literals toy_library_fields
      toy_encode_literals dict_comprehension_def sorted_reverse_def torch_dot_score_def)

lemma scored_terms:
  assumes "distinct ks"
  shows "distinct (map snd (sorted_reverse (map (\<lambda>k. (g k, k)) ks)))"
    and "set (map snd (sorted_reverse (map (\<lambda>k. (g k, k)) ks))) = set ks"
  using assms
  by (simp_all add: distinct_map distinct_sorted_reverse set_sorted_reverse inj_on_def
      image_image)

text \<open>
  C9. Duplicate search terms are collapsed by the dict: with a metric name that is accepted,
  \<open>try_model\<close> returns a list with exactly one scored entry per distinct term. No term
  occurs twice, every term occurs, and the length of the list is the number of distinct
  terms.
\<close>

theorem duplicate_terms_collapsed:
  assumes "lower match_algo = ''dot'' \<or> lower match_algo = ''cosine''"
  shows "\<exists>res. try_model lib mod_name match_algo just_nouns psg_in search_terms = Inr res
           \<and> distinct (map snd res)
           \<and> set (map snd res) = set search_terms
           \<and> length res = card (set search_terms)"
proof -
  obtain f where f: "select_match_func lib match_algo = Inr f"
    using select_match_func_valid [OF assms, of lib] by (elim exE)
  let ?p = "encode lib mod_name
              (if just_nouns then join '' '' (noun_phrases lib psg_in) else psg_in)"
  let ?g' = "\<lambda>k. f (encode lib mod_name k) ?p"
  let ?g = "\<lambda>k. (?g' k, k)"
  obtain ks where ks: "distinct ks" "set ks = set search_terms"
      "try_model lib mod_name match_algo just_nouns psg_in search_terms =
         Inr (sorted_reverse (map ?g ks))"
    using try_model_keyed [OF f, of search_terms mod_name just_nouns psg_in]
    by (elim exE conjE)
  let ?res = "sorted_reverse (map ?g ks)"
  have d1: "distinct (map snd ?res)"
    by (rule scored_terms(1) [OF ks(1)])
  have d2: "set (map snd ?res) = set search_terms"
    using scored_terms(2) [OF ks(1), of ?g'] ks(2) by simp
  have d3: "length ?res = card (set search_terms)"
    using ks(1,2) by (simp add: length_sorted_reverse distinct_card [symmetric])
  show ?thesis
    by (rule exI [of _ ?res]) (intro conjI ks(3) d1 d2 d3)
qed

theorem duplicate_terms_collapsed_witness:
  "(lower ''dot'' = ''dot'' \<or> lower ''dot'' = ''cosine'') \<and>
   (\<exists>res. try_model toy_library ''m'' ''dot'' False ''gym'' [''gym'', ''tent'', ''gym''] = Inr res
      \<and> distinct (map snd res)
      \<and> set (map snd res) = {''gym'', ''tent''}
      \<and> length res = 2)"
proof -
  have h: "lower ''dot'' = ''dot'' \<or> lower ''dot'' = ''cosine''"
    by (simp add: lower_literals)
  have c: "card {''gym'', ''tent''} = 2"
    by simp
  have s: "set [''gym'', ''tent'', ''gym''] = {''gym'', ''tent''}"
    by auto
  have "\<exists>res. try_model toy_library ''m'' ''dot'' False ''gym'' [''gym'', ''tent'', ''gym''] = Inr res
      \<and> distinct (map snd res)
      \<and> set (map snd res) = set [''gym'', ''tent'', ''gym'']
      \<and> length res = card (set [''gym'', ''tent'', ''gym''])"
    by (rule duplicate_terms_collapsed [OF h])
  then have "\<exists>res. try_model toy_library ''m'' ''dot'' False ''gym'' [''gym'', ''tent'', ''gym''] = Inr res
      \<and> distinct (map snd res)
      \<and> set (map snd res) = {''gym'', ''tent''}
      \<and> length res = 2"
    by (simp only: s c)
  with h show ?thesis by (rule conjI)
qed

text \<open>
  C1, as the code has it. The result of \<open>try_model\<close> is in descending order of the pairs
  \<open>(score, term)\<close>: the scores never increase along the list, and entries with equal
  scores are in descending order of their terms, as Python compares strings. The order in
  which the terms were supplied plays no part: any list with the same set of terms gives
  the same result.
\<close>

theorem try_model_ranking:
  assumes "try_model lib mod_name match_algo just_nouns psg_in search_terms = Inr res"
  shows "sorted_wrt (\<lambda>x y. fst y < fst x \<or> (fst y = fst x \<and> snd y < snd x)) res
       \<and> (\<forall>ts. set ts = set search_terms \<longrightarrow>
              try_model lib mod_name match_algo just_nouns psg_in ts = Inr res)"
proof -
  obtain f where f: "select_match_func lib match_algo = Inr f"
    using try_model_Inr_select [OF assms] by (elim exE)
  let ?p = "encode lib mod_name
              (if just_nouns then join '' '' (noun_phrases lib psg_in) else psg_in)"
  let ?g = "\<lambda>k. (f (encode lib mod_name k) ?p, k)"
  obtain ks where ks: "distinct ks" "set ks = set search_terms"
      "try_model lib mod_name match_algo just_nouns psg_in search_terms =
         Inr (sorted_reverse (map ?g ks))"
    using try_model_keyed [OF f, of search_terms mod_name just_nouns psg_in]
    by (elim exE conjE)
  have res: "res = sorted_reverse (map ?g ks)"
    using assms ks(3) by simp
  have "sorted_wrt (\<lambda>x y. y < x) res"
    unfolding res by (rule strictly_descending_sorted_reverse) (rule distinct_scored [OF ks(1)])
  then have ordered: "sorted_wrt (\<lambda>x y. fst y < fst x \<or> (fst y = fst x \<and> snd y < snd x)) res"
    by (rule sorted_wrt_mono_rel [rotated]) (auto simp: less_prod_def)
  have "try_model lib mod_name match_algo just_nouns psg_in ts = Inr res"
    if ts: "set ts = set search_terms" for ts
  proof -
    obtain ks' where ks': "distinct ks'" "set ks' = set ts"
        "try_model lib mod_name match_algo just_nouns psg_in ts =
           Inr (sorted_reverse (map ?g ks'))"
      using try_model_keyed [OF f, of ts mod_name just_nouns psg_in]
      by (elim exE conjE)
    have "sorted_reverse (map ?g ks') = sorted_reverse (map ?g ks)"
      by (rule sorted_reverse_cong_set)
        (simp_all add: distinct_scored ks'(1) ks(1) ks'(2) ks(2) ts)
    then show ?thesis using ks'(3) res by simp
  qed
  then show ?thesis using ordered by (intro conjI allI impI)
qed

theorem try_model_ranking_witness:
  "try_model toy_library ''m'' ''dot'' False ''gym'' [''Gym'', ''gym''] =
     Inr [(1, ''gym''), (1, ''Gym'')]
   \<and> sorted_wrt (\<lambda>x y. fst y < fst x \<or> (fst y = fst x \<and> snd y < snd x))
        [(1::real, ''gym''), (1, ''Gym'')]
   \<and> (set [''gym'', ''Gym''] = set [''Gym'', ''gym''] \<and>
        try_model toy_library ''m'' ''dot'' False ''gym'' [''gym'', ''Gym''] =
          Inr [(1, ''gym''), (1, ''Gym'')])"
proof -
  have s: "set [''gym'', ''Gym''] = set [''Gym'', ''gym'']"
    by (simp add: insert_commute)
  note r = try_model_ranking [OF toy_dot_ties]
  note a = r [THEN conjunct1]
  note b = r [THEN conjunct2, rule_format, OF s]
  show ?thesis
    by (intro conjI toy_dot_ties a s b)
qed

text \<open>
  The claim C1 as it is written fails where two terms have the same score. Under an uncased
  model \<open>Gym\<close> and \<open>gym\<close> have the same vector and hence the same score; \<open>Gym\<close> is
  supplied first, and the result lists \<open>gym\<close> first, since \<open>gym\<close> is the greater string.
  The two scores are equal, so the list is not strictly descending by score either.
\<close>

theorem try_model_ties_counterexample:
  "try_model toy_library ''m'' ''dot'' False ''gym'' [''Gym'', ''gym''] =
     Inr [(1, ''gym''), (1, ''Gym'')]"
  by (rule toy_dot_ties)

section \<open>Degenerate vectors and mixed metrics\<close>

lemma sum_squares_nonneg: "0 \<le> sum_list (map2 (*) a (a :: real list))"
  by (induction a) simp_all

lemma torch_norm_zero:
  assumes "torch_norm a = 0"
  shows "\<forall>x\<in>set a. x = 0"
proof -
  have "sum_list (map2 (*) a a) = 0"
    using assms by (simp add: torch_norm_def torch_dot_score_def)
  then show ?thesis
  proof (induction a)
    case Nil
    then show ?case by simp
  next
    case (Cons x a)
    have "0 \<le> x * x" by simp
    moreover have "0 \<le> sum_list (map2 (*) a a)" by (rule sum_squares_nonneg)
    moreover have "x * x + sum_list (map2 (*) a a) = 0" using Cons.prems by simp
    ultimately have "x * x = 0" "sum_list (map2 (*) a a) = 0"
      by linarith+
    then show ?case using Cons.IH by simp
  qed
qed

lemma torch_dot_score_zero_left: "\<forall>x\<in>set a. x = 0 \<Longrightarrow> torch_dot_score a b = 0"
  unfolding torch_dot_score_def
proof (induction a arbitrary: b)
  case Nil
  then show ?case by simp
next
  case (Cons x a)
  then show ?case by (cases b) simp_all
qed

lemma torch_dot_score_zero_right: "\<forall>x\<in>set b. x = 0 \<Longrightarrow> torch_dot_score a b = 0"
  unfolding torch_dot_score_def
proof (induction a arbitrary: b)
  case Nil
  then show ?case by simp
next
  case (Cons x a)
  then show ?case by (cases b) simp_all
qed

lemma torch_normalize_zero: "\<forall>x\<in>set a. x = 0 \<Longrightarrow> \<forall>x\<in>set (torch_normalize a). x = 0"
  by (simp add: torch_normalize_def)

lemma torch_scores_zero_norm:
  assumes "torch_norm p = 0"
  shows "torch_dot_score v p = 0" and "torch_cos_sim v p = 0"
proof -
  have z: "\<forall>x\<in>set p. x = 0" by (rule torch_norm_zero [OF assms])
  show "torch_dot_score v p = 0" by (rule torch_dot_score_zero_right [OF z])
  show "torch_cos_sim v p = 0"
    unfolding torch_cos_sim_def
    by (rule torch_dot_score_zero_right [OF torch_normalize_zero [OF z]])
qed

lemma torch_scores_zero_norm_left:
  assumes "torch_norm v = 0"
  shows "torch_dot_score v p = 0" and "torch_cos_sim v p = 0"
proof -
  have z: "\<forall>x\<in>set v. x = 0" by (rule torch_norm_zero [OF assms])
  show "torch_dot_score v p = 0" by (rule torch_dot_score_zero_left [OF z])
  show "torch_cos_sim v p = 0"
    unfolding torch_cos_sim_def
    by (rule torch_dot_score_zero_left [OF torch_normalize_zero [OF z]])
qed

text \<open>
  C3, as the code has it. \<open>try_model\<close> has no check of the norm and no error for a
  degenerate vector: under the cosine metric, as under the dot metric, the call succeeds
  whatever the norms are. With the library's scorers, every entry whose term vector has norm
  zero has the score 0, and so has every entry when the passage vector has norm zero: the
  cosine scorer divides by the larger of the norm and \<open>1e-12\<close>.
\<close>

theorem try_model_zero_norm:
  assumes "dot_score lib = torch_dot_score" and "pytorch_cos_sim lib = torch_cos_sim"
    and "lower match_algo = ''dot'' \<or> lower match_algo = ''cosine''"
  shows "\<exists>res. try_model lib mod_name match_algo just_nouns psg_in search_terms = Inr res
           \<and> set (map fst (filter
                 (\<lambda>x. torch_norm (encode lib mod_name (snd x)) = 0
                    \<or> torch_norm (encode lib mod_name
                         (if just_nouns then join '' '' (noun_phrases lib psg_in) else psg_in)) = 0)
                 res)) \<subseteq> {0}"
proof -
  let ?p = "encode lib mod_name
              (if just_nouns then join '' '' (noun_phrases lib psg_in) else psg_in)"
  obtain f where f: "select_match_func lib match_algo = Inr f"
    using select_match_func_valid [OF assms(3), of lib] by (elim exE)
  have "f = torch_dot_score \<or> f = torch_cos_sim"
    using f assms(1,2) by (auto simp: select_match_func_def split: if_splits)
  then have score: "f v ?p = 0" if "torch_norm v = 0 \<or> torch_norm ?p = 0" for v
    using that torch_scores_zero_norm [of ?p v] torch_scores_zero_norm_left [of v ?p] by auto
  obtain ks where ks:
      "try_model lib mod_name match_algo just_nouns psg_in search_terms =
         Inr (sorted_reverse (map (\<lambda>k. (f (encode lib mod_name k) ?p, k)) ks))"
    using try_model_keyed [OF f, of search_terms mod_name just_nouns psg_in]
    by (elim exE conjE)
  let ?res = "sorted_reverse (map (\<lambda>k. (f (encode lib mod_name k) ?p, k)) ks)"
  have "set (map fst (filter
                 (\<lambda>x. torch_norm (encode lib mod_name (snd x)) = 0 \<or> torch_norm ?p = 0)
                 ?res)) \<subseteq> {0}"
    using score by (auto simp: set_sorted_reverse)
  with ks show ?thesis by (intro exI conjI)
qed

lemma toy_bench_norm: "torch_norm (toy_encode ''m'' ''bench'') = 0"
  by (simp add: torch_norm_def torch_dot_score_def toy_encode_literals)

theorem try_model_zero_norm_witness:
  "dot_score toy_library = torch_dot_score \<and> pytorch_cos_sim toy_library = torch_cos_sim
   \<and> (lower ''cosine'' = ''dot'' \<or> lower ''cosine'' = ''cosine'')
   \<and> (\<exists>res. try_model toy_library ''m'' ''cosine'' False ''bench'' queries = Inr res
         \<and> set (map fst (filter
               (\<lambda>x. torch_norm (encode toy_library ''m'' (snd x)) = 0
                  \<or> torch_norm (encode toy_library ''m''
                       (if False then join '' '' (noun_phrases toy_library ''bench'')
                        else ''bench'')) = 0)
               res)) \<subseteq> {0})"
proof -
  have h3: "lower ''cosine'' = ''dot'' \<or> lower ''cosine'' = ''cosine''"
    by (simp add: lower_literals)
  note r = try_model_zero_norm [OF toy_library_fields(3) toy_library_fields(4) h3,
      of "''m''" False "''bench''" queries]
  show ?thesis
    by (intro conjI toy_library_fields(3) toy_library_fields(4) h3 r)
qed

text \<open>
  The claim C3 as it is written fails: scoring against a passage vector of norm zero under
  the cosine metric is not an error, the call returns the score 0.
\<close>

theorem cosine_zero_vector_counterexample:
  "torch_norm (encode toy_library ''m'' ''bench'') = 0
   \<and> try_model toy_library ''m'' ''cosine'' False ''bench'' [''gym''] = Inr [(0, ''gym'')]"
proof -
  have "torch_cos_sim [1, 0] [0, 0] = 0"
    by (rule torch_scores_zero_norm(2)) (simp add: torch_norm_def torch_dot_score_def)
  then have "try_model toy_library ''m'' ''cosine'' False ''bench'' [''gym''] = Inr [(0, ''gym'')]"
    by (simp add: try_model_select select_match_func_cosine lower_literals toy_library_fields
        toy_encode_literals dict_comprehension_def sorted_reverse_def)
  moreover have "torch_norm (encode toy_library ''m'' ''bench'') = 0"
    by (simp only: toy_library_fields toy_bench_norm)
  ultimately show ?thesis by (intro conjI)
qed

text \<open>
  C4, as the code has it. The metric is an argument of each call of \<open>try_model\<close>, and a
  call leaves nothing behind (the index body \<open>idx\<close> has no metric either, and \<open>do_query\<close>
  takes none). Two calls on the same model, passage and terms with different accepted
  metric names both return a result list.
\<close>

theorem try_model_metric_per_call:
  assumes "lower algo1 = ''dot'' \<or> lower algo1 = ''cosine''"
    and "lower algo2 = ''dot'' \<or> lower algo2 = ''cosine''"
  shows "\<exists>res1 res2.
           try_model lib mod_name algo1 just_nouns psg_in search_terms = Inr res1
         \<and> try_model lib mod_name algo2 just_nouns psg_in search_terms = Inr res2"
proof -
  obtain f1 where "select_match_func lib algo1 = Inr f1"
    using select_match_func_valid [OF assms(1), of lib] by (elim exE)
  then have 1: "\<exists>res. try_model lib mod_name algo1 just_nouns psg_in search_terms = Inr res"
    by (simp add: try_model_select)
  obtain f2 where "select_match_func lib algo2 = Inr f2"
    using select_match_func_valid [OF assms(2), of lib] by (elim exE)
  then have 2: "\<exists>res. try_model lib mod_name algo2 just_nouns psg_in search_terms = Inr res"
    by (simp add: try_model_select)
  from 1 2 show ?thesis by (elim exE) (intro exI conjI)
qed

theorem try_model_metric_per_call_witness:
  "(lower ''dot'' = ''dot'' \<or> lower ''dot'' = ''cosine'')
   \<and> (lower ''cosine'' = ''dot'' \<or> lower ''cosine'' = ''cosine'')
   \<and> (\<exists>res1 res2.
          try_model toy_library ''m'' ''dot'' False ''gym'' queries = Inr res1
        \<and> try_model toy_library ''m'' ''cosine'' False ''gym'' queries = Inr res2)"
proof -
  have h1: "lower ''dot'' = ''dot'' \<or> lower ''dot'' = ''cosine''"
    by (simp add: lower_literals)
  have h2: "lower ''cosine'' = ''dot'' \<or> lower ''cosine'' = ''cosine''"
    by (simp add: lower_literals)
  note r = try_model_metric_per_call [OF h1 h2, of toy_library "''m''" False "''gym''" queries]
  show ?thesis
    by (intro conjI h1 h2 r)
qed

text \<open>
  The claim C4 as it is written fails: after a query under the dot metric, a query under the
  cosine metric on the same passage and terms is answered, not refused.
\<close>

theorem mixed_metrics_counterexample:
  "try_model toy_library ''m'' ''dot'' False ''gym'' [''gym'', ''tent''] =
     Inr [(1, ''gym''), (0, ''tent'')]
   \<and> try_model toy_library ''m'' ''cosine'' False ''gym'' [''gym'', ''tent''] =
     Inr [(1, ''gym''), (0, ''tent'')]"
proof -
  have n: "torch_normalize [1, 0] = [1, 0]" "torch_normalize [0, 1] = [0, 1]"
    by (simp_all add: torch_normalize_def torch_norm_def torch_dot_score_def)
  have "try_model toy_library ''m'' ''cosine'' False ''gym'' [''gym'', ''tent''] =
     Inr [(1, ''gym''), (0, ''tent'')]"
    by (simp add: try_model_select select_match_func_cosine lower_literals toy_library_fields
        toy_encode_literals dict_comprehension_def sorted_reverse_def torch_cos_sim_def n
        torch_dot_score_def)
  with toy_dot_gym_tent show ?thesis by (intro conjI)
qed

section \<open>do\_query\<close>

lemma do_query_fst:
  "fst (do_query es m index c term) =
     (case fst (search es c \<lparr>qry_size = 2, qry_vector = m term, qry_k = 2\<rparr> index) of
        Inl e \<Rightarrow> Inl e
      | Inr hits \<Rightarrow> Inr (map (\<lambda>h. (description (hit_source h), hit_score h)) hits))"
  by (simp add: do_query_def Let_def split: prod.split)




lemma toy_engine_search: "search toy_engine = toy_search"
  by (simp add: toy_engine_def)



lemma toy_search_fresh:
  "fst (search toy_engine (fresh_cluster (toy_encode ''m'') ''gym'')
          \<lparr>qry_size = 2, qry_vector = toy_encode ''m'' ''gym'', qry_k = 2\<rparr> my_idx) = Inr []"
  by (simp add: toy_engine_search toy_search_def fresh_cluster_def)



text \<open>
  C6. No result is not an error. With an accepted metric name and no search term,
  \<open>try_model\<close> returns the empty list; when the engine answers with no hit, \<open>do_query\<close>
  returns the empty list.
\<close>

theorem no_results_is_success:
  assumes "lower match_algo = ''dot'' \<or> lower match_algo = ''cosine''"
    and "fst (search es c \<lparr>qry_size = 2, qry_vector = m term, qry_k = 2\<rparr> index) = Inr []"
  shows "try_model lib mod_name match_algo just_nouns psg_in [] = Inr []
       \<and> fst (do_query es m index c term) = Inr []"
proof -
  obtain f where "select_match_func lib match_algo = Inr f"
    using select_match_func_valid [OF assms(1), of lib] by (elim exE)
  then have "try_model lib mod_name match_algo just_nouns psg_in [] = Inr []"
    by (simp add: try_model_select dict_comprehension_Nil sorted_reverse_Nil)
  moreover have "fst (do_query es m index c term) = Inr []"
    by (simp add: do_query_fst assms(2))
  ultimately show ?thesis by (intro conjI)
qed

theorem no_results_is_success_witness:
  "(lower ''cosine'' = ''dot'' \<or> lower ''cosine'' = ''cosine'')
   \<and> fst (search toy_engine (fresh_cluster (toy_encode ''m'') ''gym'')
            \<lparr>qry_size = 2, qry_vector = toy_encode ''m'' ''gym'', qry_k = 2\<rparr> my_idx) = Inr []
   \<and> (try_model toy_library ''m'' ''cosine'' False ''gym'' [] = Inr []
        \<and> fst (do_query toy_engine (toy_encode ''m'') my_idx
                 (fresh_cluster (toy_encode ''m'') ''gym'') ''gym'') = Inr [])"
proof -
  have h1: "lower ''cosine'' = ''dot'' \<or> lower ''cosine'' = ''cosine''"
    by (simp add: lower_literals)
  note r = no_results_is_success [of "''cosine''" toy_engine _ "toy_encode ''m''" "''gym''" my_idx
      toy_library "''m''" False "''gym''", OF h1 toy_search_fresh]
  show ?thesis
    by (intro conjI h1 toy_search_fresh r [THEN conjunct1] r [THEN conjunct2])
qed





end
